theory Spec2Isabelle
  imports Main "HOL-Library.Sublist"
begin

section \<open>The question/answer sheet server of app.js\<close>

text \<open>
  The server keeps two process-wide tables (\<open>scriptMappings\<close>, \<open>excelData\<close>) and three kinds
  of files (\<open>script_mappings.json\<close>, \<open>script_links.txt\<close>, the spreadsheets under
  \<open>uploads/\<close>). Each route handler is modelled as a function from the state before the
  request to the state after it and the response. Handlers run to completion one after the
  other; the asynchronous \<open>fs.appendFile\<close> of the upload handler is modelled as done when the
  handler returns. Disk writes are taken to succeed; a read of a file that does not exist
  throws, as \<open>fs.readFileSync\<close> and \<open>XLSX.readFile\<close> do. The process is taken to run in the
  directory of app.js, so that \<open>uploads/name\<close> and \<open>path.join(__dirname, "uploads", name)\<close>
  are the same file, and file names are taken to hold no path separator. Script ids of
  records are taken to differ from \<open>__proto__\<close>; every id the upload handler generates is a
  decimal numeral.

  SheetJS (\<open>XLSX\<close>) and Fuse.js are third-party libraries, and \<open>toLowerCase\<close> rests on the
  Unicode case tables of the engine: their behaviour is a parameter of the model
  (\<open>library\<close>), and every property that depends on it says so in a hypothesis.
\<close>

subsection \<open>JavaScript values\<close>

text \<open>
  Cell values and JSON bodies. \<open>undefined\<close> is \<open>None\<close> of \<open>jsval option\<close>. Numbers are
  modelled as integers: the code only observes whether a number is zero (truthiness).
  A string is the list of the bytes of its UTF-8 encoding.
\<close>

datatype jsval =
    JNull
  | JBool bool
  | JNum int
  | JStr string
  | JArr "jsval list"
  | JObj "(string \<times> jsval) list"

type_synonym row = "(string \<times> jsval) list"

definition field :: "row \<Rightarrow> string \<Rightarrow> jsval option" where
  "field r k = map_of r k"

fun truthy :: "jsval option \<Rightarrow> bool" where
  "truthy None = False"
| "truthy (Some JNull) = False"
| "truthy (Some (JBool b)) = b"
| "truthy (Some (JNum n)) = (n \<noteq> 0)"
| "truthy (Some (JStr s)) = (s \<noteq> [])"
| "truthy (Some (JArr _)) = True"
| "truthy (Some (JObj _)) = True"

subsection \<open>String built-ins\<close>

text \<open>
  \<open>String.prototype.trim\<close> removes from both ends the white space and line terminator
  characters of ECMAScript: U+0009 to U+000D, U+0020, U+00A0, U+1680, U+2000 to U+200A,
  U+2028, U+2029, U+202F, U+205F, U+3000 and U+FEFF. \<open>white_space\<close> lists their UTF-8
  encodings.
\<close>

definition white_space :: "string list" where
  "white_space =
     [[CHR 0x09], [CHR 0x0A], [CHR 0x0B], [CHR 0x0C], [CHR 0x0D], [CHR 0x20],
      [CHR 0xC2, CHR 0xA0], [CHR 0xE1, CHR 0x9A, CHR 0x80],
      [CHR 0xE2, CHR 0x80, CHR 0x80], [CHR 0xE2, CHR 0x80, CHR 0x81],
      [CHR 0xE2, CHR 0x80, CHR 0x82], [CHR 0xE2, CHR 0x80, CHR 0x83],
      [CHR 0xE2, CHR 0x80, CHR 0x84], [CHR 0xE2, CHR 0x80, CHR 0x85],
      [CHR 0xE2, CHR 0x80, CHR 0x86], [CHR 0xE2, CHR 0x80, CHR 0x87],
      [CHR 0xE2, CHR 0x80, CHR 0x88], [CHR 0xE2, CHR 0x80, CHR 0x89],
      [CHR 0xE2, CHR 0x80, CHR 0x8A], [CHR 0xE2, CHR 0x80, CHR 0xA8],
      [CHR 0xE2, CHR 0x80, CHR 0xA9], [CHR 0xE2, CHR 0x80, CHR 0xAF],
      [CHR 0xE2, CHR 0x81, CHR 0x9F], [CHR 0xE3, CHR 0x80, CHR 0x80],
      [CHR 0xEF, CHR 0xBB, CHR 0xBF]]"

text \<open>Removing, as long as there is one, a leading occurrence of one of the given strings.\<close>

function strip_start :: "string list \<Rightarrow> string \<Rightarrow> string" where
  "strip_start ws s =
     (case find (\<lambda>w. w \<noteq> [] \<and> prefix w s) ws of
        None \<Rightarrow> s
      | Some w \<Rightarrow> strip_start ws (drop (length w) s))"
  by pat_completeness auto
termination
proof (relation "measure (\<lambda>(ws, s). length s)")
  show "wf (measure (\<lambda>(ws, s). length s))" by simp
next
  fix ws :: "string list" and s w :: string
  assume "find (\<lambda>w. w \<noteq> [] \<and> prefix w s) ws = Some w"
  then have "w \<noteq> []" and "prefix w s"
    by (auto simp: find_Some_iff)
  then have "0 < length w" and "length w \<le> length s"
    by (auto simp: prefix_def)
  then have "length s - length w < length s" by arith
  then show "((ws, drop (length w) s), (ws, s)) \<in> measure (\<lambda>(ws, s). length s)"
    by simp
qed

declare strip_start.simps [simp del]

definition trim :: "string \<Rightarrow> string" where
  "trim s = rev (strip_start (map rev white_space) (rev (strip_start white_space s)))"

text \<open>\<open>String.prototype.includes\<close>: the needle occurs as a contiguous substring.\<close>

fun str_includes :: "string \<Rightarrow> string \<Rightarrow> bool" where
  "str_includes [] needle = (needle = [])"
| "str_includes (c # cs) needle = (prefix needle (c # cs) \<or> str_includes cs needle)"

text \<open>\<open>s.split("\n")\<close> and \<open>lines.join("\n")\<close>.\<close>

fun split_nl :: "string \<Rightarrow> string list" where
  "split_nl [] = [[]]"
| "split_nl (c # cs) =
     (if c = CHR 0x0A then [] # split_nl cs
      else (case split_nl cs of [] \<Rightarrow> [[c]] | l # ls \<Rightarrow> (c # l) # ls))"

fun join_nl :: "string list \<Rightarrow> string" where
  "join_nl [] = []"
| "join_nl [l] = l"
| "join_nl (l # l' # ls) = l @ CHR 0x0A # join_nl (l' # ls)"

text \<open>\<open>Number.prototype.toString\<close> on a non-negative integer: its decimal digits.\<close>

definition digit_char :: "nat \<Rightarrow> char" where
  "digit_char d = ''0123456789'' ! d"

fun toString :: "nat \<Rightarrow> string" where
  "toString n = (if n < 10 then [digit_char n] else toString (n div 10) @ [digit_char (n mod 10)])"

declare toString.simps [simp del]

subsection \<open>Objects used as dictionaries\<close>

text \<open>
  \<open>scriptMappings\<close> is a plain object keyed by file name. It is kept as the list of its
  own properties in creation order. \<open>Object.entries\<close>, \<open>Object.values\<close> and
  \<open>JSON.stringify\<close> list the keys that are array indices first, in ascending numeric
  order, then the other keys in creation order.
\<close>

record mapping_entry =
  scriptId :: string
  redirectUrl :: string
  clientName :: string

type_synonym mappings = "(string \<times> mapping_entry) list"

definition is_digit :: "char \<Rightarrow> bool" where
  "is_digit c = (48 \<le> (of_char c :: nat) \<and> (of_char c :: nat) \<le> 57)"

definition nat_of_string :: "string \<Rightarrow> nat" where
  "nat_of_string s = foldl (\<lambda>acc c. 10 * acc + ((of_char c :: nat) - 48)) 0 s"

definition is_array_index :: "string \<Rightarrow> bool" where
  "is_array_index s =
     (s \<noteq> [] \<and> list_all is_digit s \<and> (s = ''0'' \<or> hd s \<noteq> CHR ''0'')
      \<and> nat_of_string s < 4294967295)"

definition obj_entries :: "(string \<times> 'v) list \<Rightarrow> (string \<times> 'v) list" where
  "obj_entries m =
     sort_key (\<lambda>kv. nat_of_string (fst kv)) (filter (\<lambda>kv. is_array_index (fst kv)) m)
     @ filter (\<lambda>kv. \<not> is_array_index (fst kv)) m"

text \<open>
  \<open>obj[k] = v\<close> with an object \<open>v\<close>: an existing own property keeps its place, a new one
  goes last. For the key \<open>__proto__\<close>, when it is no own property, the assignment reaches
  the setter of \<open>Object.prototype\<close>: it replaces the prototype of the object and creates
  no own property, so that \<open>Object.entries\<close>, \<open>Object.values\<close> and \<open>JSON.stringify\<close> list
  what they listed before.
\<close>

definition obj_set :: "(string \<times> 'v) list \<Rightarrow> string \<Rightarrow> 'v \<Rightarrow> (string \<times> 'v) list" where
  "obj_set m k v =
     (if k \<in> fst ` set m then map (\<lambda>kv. if fst kv = k then (k, v) else kv) m
      else if k = ''__proto__'' then m
      else m @ [(k, v)])"

text \<open>\<open>delete obj[k]\<close>.\<close>

definition obj_delete :: "(string \<times> 'v) list \<Rightarrow> string \<Rightarrow> (string \<times> 'v) list" where
  "obj_delete m k = filter (\<lambda>kv. fst kv \<noteq> k) m"

text \<open>\<open>Object.entries(scriptMappings).find(([_, val]) => val.scriptId === scriptId)\<close>.\<close>

definition find_entry :: "mappings \<Rightarrow> string \<Rightarrow> (string \<times> mapping_entry) option" where
  "find_entry m sid = find (\<lambda>kv. scriptId (snd kv) = sid) (obj_entries m)"

text \<open>\<open>Object.values(scriptMappings).map(entry => entry.clientName)\<close>.\<close>

definition client_names :: "mappings \<Rightarrow> string list" where
  "client_names m = map (\<lambda>kv. clientName (snd kv)) (obj_entries m)"

text \<open>
  A read \<open>obj[k]\<close> follows the prototype chain: for a key that is not an own property of
  a plain object, it yields the property of that name of \<open>Object.prototype\<close>, when there
  is one. These are its names; each of them holds a function, or an object, hence a truthy
  value that has no \<open>fuse\<close> property.
\<close>

definition object_prototype_names :: "string list" where
  "object_prototype_names =
     [''constructor'', ''__defineGetter__'', ''__defineSetter__'', ''hasOwnProperty'',
      ''__lookupGetter__'', ''__lookupSetter__'', ''isPrototypeOf'', ''propertyIsEnumerable'',
      ''toString'', ''valueOf'', ''__proto__'', ''toLocaleString'']"

subsection \<open>The third-party libraries and the case tables\<close>

text \<open>
  \<open>'f\<close> is the content of a spreadsheet file.
  \<^item> \<open>xlsx_read f\<close>: \<open>XLSX.readFile\<close> followed by \<open>sheet_to_json\<close> of the first sheet;
    \<open>None\<close> when the library throws.
  \<^item> \<open>xlsx_write name items\<close>: \<open>json_to_sheet\<close>, \<open>book_append_sheet\<close> and the content that
    \<open>XLSX.writeFile\<close> puts into the file of that name; \<open>None\<close> when the library throws.
  \<^item> \<open>fuse_search rows pattern\<close>: the items of
    \<open>new Fuse(rows, {keys: ["Question"], threshold: 0.4}).search(pattern)\<close> in ranked order,
    the pattern \<open>None\<close> being \<open>undefined\<close>; \<open>None\<close> when the library throws.
  \<^item> \<open>toLowerCase q\<close>: \<open>String.prototype.toLowerCase\<close>, the lower-casing of the Unicode
    case tables.
\<close>

record 'f library =
  xlsx_read :: "'f \<Rightarrow> row list option"
  xlsx_write :: "string \<Rightarrow> jsval list \<Rightarrow> 'f option"
  fuse_search :: "row list \<Rightarrow> string option \<Rightarrow> row list option"
  toLowerCase :: "string \<Rightarrow> string"

subsection \<open>State, requests and responses\<close>

record 'f state =
  scriptMappings :: mappings
  excelData :: "string \<rightharpoonup> row list"
  mapping_file :: "mappings option"
  uploads :: "string \<rightharpoonup> 'f"
  script_links :: "string option"

text \<open>
  \<open>excelData[id]\<close> holds the rows and the Fuse index built from them with fixed options, so
  the entry is modelled by the rows. \<open>mapping_file\<close> is what \<open>script_mappings.json\<close> holds
  (\<open>None\<close>: no such file), \<open>script_links\<close> the text of \<open>script_links.txt\<close>.
\<close>

record 'f uploaded_file =
  originalname :: string
  content :: "'f"

record 'f upload_request =
  req_file :: "'f uploaded_file option"
  req_clientName :: "string option"

datatype response_body =
    ErrorMsg string
  | Uploaded string string string string
  | Answer "jsval option"
  | SheetRows "row list"
  | Message string

type_synonym response = "nat \<times> response_body"

text \<open>
  An exception that leaves a handler (Express answers it with status 500):
  \<open>NotAFunction\<close> is the TypeError of calling a property that is not a function,
  \<open>ReadOfUndefined\<close> the TypeError of reading a property of \<open>undefined\<close>,
  \<open>XlsxThrew\<close> and \<open>FuseThrew\<close> are exceptions raised inside the libraries.
\<close>

datatype js_error = NotAFunction | ReadOfUndefined | XlsxThrew | FuseThrew

text \<open>The process start: the tables as line 28 and line 31 initialise them.\<close>

definition restart :: "'f state \<Rightarrow> 'f state" where
  "restart s = s\<lparr>scriptMappings := (case mapping_file s of None \<Rightarrow> [] | Some m \<Rightarrow> m),
                 excelData := Map.empty\<rparr>"

subsection \<open>POST /upload\<close>

definition link_line :: "string \<Rightarrow> string \<Rightarrow> string \<Rightarrow> string \<Rightarrow> string" where
  "link_line cn sid fileName url =
     ''Client: '' @ cn @ '', Script ID: '' @ sid @ '', File: '' @ fileName
     @ '', URL: http://65.1.176.171:8080'' @ url @ [CHR 0x0A]"

text \<open>\<open>fs.appendFile\<close> creates the file when it does not exist.\<close>

definition append_link :: "string option \<Rightarrow> string \<Rightarrow> string option" where
  "append_link links l = Some ((case links of None \<Rightarrow> [] | Some t \<Rightarrow> t) @ l)"

definition sheet_ok :: "row list \<Rightarrow> bool" where
  "sheet_ok sheet =
     (case sheet of [] \<Rightarrow> False
      | r # _ \<Rightarrow> truthy (field r ''Question'') \<and> truthy (field r ''Answer''))"

text \<open>
  The multer middleware of lines 34 to 38 runs before the handler and stores the file part,
  when there is one, under its original name.
\<close>

definition multer_store :: "'f state \<Rightarrow> 'f upload_request \<Rightarrow> 'f state" where
  "multer_store s req =
     (case req_file req of None \<Rightarrow> s
      | Some f \<Rightarrow> s\<lparr>uploads := (uploads s)(originalname f \<mapsto> content f)\<rparr>)"

text \<open>The handler of lines 41 to 84; \<open>now\<close> is the value of \<open>Date.now()\<close>.\<close>

definition upload_handler ::
  "'f library \<Rightarrow> nat \<Rightarrow> 'f state \<Rightarrow> 'f upload_request \<Rightarrow> 'f state \<times> (js_error + response)" where
  "upload_handler lib now s req =
     (case (req_file req, req_clientName req) of
        (Some f, Some rawName) \<Rightarrow>
          if rawName = [] then (s, Inr (400, ErrorMsg ''File and client name are required.''))
          else
            let fileName = originalname f;
                cn = trim rawName
            in if cn \<in> set (client_names (scriptMappings s))
               then (s, Inr (400, ErrorMsg
                      ''Client name already exists. Please choose a different name.''))
               else
                 let sid = toString now;
                     url = ''/ask/'' @ sid;
                     m = obj_set (scriptMappings s) fileName
                           \<lparr>scriptId = sid, redirectUrl = url, clientName = cn\<rparr>;
                     s1 = s\<lparr>scriptMappings := m, mapping_file := Some (obj_entries m)\<rparr>
                 in (case uploads s fileName of
                       None \<Rightarrow> (s1, Inl XlsxThrew)
                     | Some bytes \<Rightarrow>
                         (case xlsx_read lib bytes of
                            None \<Rightarrow> (s1, Inl XlsxThrew)
                          | Some sheet \<Rightarrow>
                              if \<not> sheet_ok sheet
                              then (s1, Inr (400, ErrorMsg
                                     ''The uploaded file is empty or missing required columns.''))
                              else
                                (s1\<lparr>excelData := (excelData s1)(sid \<mapsto> sheet),
                                    script_links :=
                                      append_link (script_links s1) (link_line cn sid fileName url)\<rparr>,
                                 Inr (200, Uploaded sid fileName cn url))))
      | _ \<Rightarrow> (s, Inr (400, ErrorMsg ''File and client name are required.'')))"

definition upload ::
  "'f library \<Rightarrow> nat \<Rightarrow> 'f state \<Rightarrow> 'f upload_request \<Rightarrow> 'f state \<times> (js_error + response)" where
  "upload lib now s req = upload_handler lib now (multer_store s req) req"

subsection \<open>POST /process-speech/:id\<close>

text \<open>
  The body is a JSON object, as the JSON middleware leaves it; \<open>question\<close> is its
  \<open>question\<close> member, \<open>None\<close> when it has none. Line 106 is evaluated before the table is
  consulted: \<open>?.\<close> yields \<open>undefined\<close> for a missing or null question, and calls
  \<open>toLowerCase\<close> on anything else, which only strings have.
\<close>

fun user_question :: "'f library \<Rightarrow> jsval option \<Rightarrow> js_error + string option" where
  "user_question lib None = Inr None"
| "user_question lib (Some JNull) = Inr None"
| "user_question lib (Some (JStr q)) = Inr (Some (toLowerCase lib q))"
| "user_question lib (Some _) = Inl NotAFunction"

text \<open>
  Line 108 tests \<open>excelData[scriptId]\<close> for truthiness. For an id that names a property
  of \<open>Object.prototype\<close> and has no entry, the value read is that property: the test
  passes, \<open>fuse\<close> of line 110 is \<open>undefined\<close>, and line 111 throws.
\<close>

definition process_speech ::
  "'f library \<Rightarrow> 'f state \<Rightarrow> string \<Rightarrow> jsval option \<Rightarrow> 'f state \<times> (js_error + response)" where
  "process_speech lib s sid question =
     (case user_question lib question of
        Inl e \<Rightarrow> (s, Inl e)
      | Inr userQuestion \<Rightarrow>
          (case excelData s sid of
             None \<Rightarrow>
               if sid \<in> set object_prototype_names then (s, Inl ReadOfUndefined)
               else (s, Inr (404, Answer (Some (JStr ''No data found for this script.''))))
           | Some rows \<Rightarrow>
               (case fuse_search lib rows userQuestion of
                  None \<Rightarrow> (s, Inl FuseThrew)
                | Some [] \<Rightarrow>
                    (s, Inr (200, Answer (Some (JStr ''Sorry, please ask related questions.''))))
                | Some (item # _) \<Rightarrow> (s, Inr (200, Answer (field item ''Answer''))))))"

subsection \<open>GET /get-excel/:id\<close>

definition get_excel :: "'f library \<Rightarrow> 'f state \<Rightarrow> string \<Rightarrow> response" where
  "get_excel lib s sid =
     (case find_entry (scriptMappings s) sid of
        None \<Rightarrow> (404, ErrorMsg ''File not found.'')
      | Some (fileName, _) \<Rightarrow>
          (case uploads s fileName of
             None \<Rightarrow> (500, ErrorMsg ''Error reading Excel file.'')
           | Some bytes \<Rightarrow>
               (case xlsx_read lib bytes of
                  None \<Rightarrow> (500, ErrorMsg ''Error reading Excel file.'')
                | Some sheet \<Rightarrow> (200, SheetRows sheet))))"

subsection \<open>PUT /update-excel\<close>

text \<open>
  \<open>sid\<close> and \<open>sheet\<close> are the \<open>scriptId\<close> and \<open>sheet\<close> members of the JSON body. The strict
  equality of line 139 holds only for a string.
\<close>

definition update_excel ::
  "'f library \<Rightarrow> 'f state \<Rightarrow> jsval option \<Rightarrow> jsval option \<Rightarrow> 'f state \<times> response" where
  "update_excel lib s sid sheet =
     (case sheet of
        Some (JArr items) \<Rightarrow>
          if \<not> truthy sid then (s, (400, ErrorMsg ''Invalid data format.''))
          else
            (case sid of
               Some (JStr ident) \<Rightarrow>
                 (case find_entry (scriptMappings s) ident of
                    None \<Rightarrow> (s, (404, ErrorMsg ''File not found.''))
                  | Some (fileName, _) \<Rightarrow>
                      (case xlsx_write lib fileName items of
                         None \<Rightarrow> (s, (500, ErrorMsg ''Server error.''))
                       | Some bytes \<Rightarrow>
                           let s1 = s\<lparr>uploads := (uploads s)(fileName \<mapsto> bytes)\<rparr>
                           in (case xlsx_read lib bytes of
                                 None \<Rightarrow> (s1, (500, ErrorMsg ''Server error.''))
                               | Some updatedSheet \<Rightarrow>
                                   (s1\<lparr>excelData := (excelData s1)(ident \<mapsto> updatedSheet)\<rparr>,
                                    (200, Message
                                      ''Excel data updated successfully and reloaded for voice assistant!'')))))
             | _ \<Rightarrow> (s, (404, ErrorMsg ''File not found.'')))
      | _ \<Rightarrow> (s, (400, ErrorMsg ''Invalid data format.'')))"

subsection \<open>DELETE /delete/:scriptId\<close>

definition delete_script :: "'f state \<Rightarrow> string \<Rightarrow> 'f state \<times> response" where
  "delete_script s sid =
     (case find_entry (scriptMappings s) sid of
        None \<Rightarrow> (s, (404, ErrorMsg ''Script not found.''))
      | Some (fileName, _) \<Rightarrow>
          let m = obj_delete (scriptMappings s) fileName;
              s1 = s\<lparr>uploads := (uploads s)(fileName := None),
                     scriptMappings := m,
                     mapping_file := Some (obj_entries m),
                     excelData := (excelData s)(sid := None)\<rparr>
          in (case script_links s1 of
                None \<Rightarrow> (s1, (500, ErrorMsg ''Server error.''))
              | Some lg \<Rightarrow>
                  (s1\<lparr>script_links :=
                        Some (join_nl (filter (\<lambda>line. \<not> str_includes line sid) (split_nl lg)))\<rparr>,
                   (200, Message ''Script deleted successfully!''))))"

subsection \<open>Predicates used in the statements\<close>

fun is_string :: "jsval option \<Rightarrow> bool" where
  "is_string (Some (JStr _)) = True"
| "is_string _ = False"

fun nullish :: "jsval option \<Rightarrow> bool" where
  "nullish None = True"
| "nullish (Some JNull) = True"
| "nullish _ = False"

text \<open>Every client name in the table is as \<open>trim\<close> leaves it; the upload handler stores no other.\<close>

definition names_trimmed :: "mappings \<Rightarrow> bool" where
  "names_trimmed m = list_all (\<lambda>n. trim n = n) (client_names m)"

text \<open>The same of the table and of the mapping file, from which a restart loads the table.\<close>

definition store_trimmed :: "'f state \<Rightarrow> bool" where
  "store_trimmed s =
     (names_trimmed (scriptMappings s)
      \<and> (case mapping_file s of None \<Rightarrow> True | Some m \<Rightarrow> names_trimmed m))"

text \<open>No record stored under another file name carries the script id.\<close>

definition only_under :: "mappings \<Rightarrow> string \<Rightarrow> string \<Rightarrow> bool" where
  "only_under m sid fileName = list_all (\<lambda>kv. scriptId (snd kv) = sid \<longrightarrow> fst kv = fileName) m"





subsection \<open>A stand-in for the libraries and some concrete requests\<close>

text \<open>
  The theorems below hold for every \<open>library\<close>. To run them on concrete requests, the
  following stand-in is used. A file holds the rows written to it. As SheetJS does, writing
  makes no cell for a null field and an empty row for a number or a boolean, and reading
  gives no field for a missing cell and skips empty rows; the stand-in refuses items of
  other shapes. The search returns, in sheet order, the rows whose Question is the pattern
  up to case, and throws on an undefined pattern. Lower-casing is that of the letters A to
  Z, which is \<open>toLowerCase\<close> on ASCII text.
\<close>

fun item_cells :: "jsval \<Rightarrow> row option" where
  "item_cells (JObj kvs) = Some (filter (\<lambda>kv. snd kv \<noteq> JNull) kvs)"
| "item_cells (JNum _) = Some []"
| "item_cells (JBool _) = Some []"
| "item_cells _ = None"

definition standin_write :: "string \<Rightarrow> jsval list \<Rightarrow> row list option" where
  "standin_write name items =
     (if list_all (\<lambda>v. item_cells v \<noteq> None) items then Some (map (\<lambda>v. the (item_cells v)) items)
      else None)"

definition standin_read :: "row list \<Rightarrow> row list option" where
  "standin_read f = Some (filter (\<lambda>r. r \<noteq> []) f)"

definition ascii_lower_char :: "char \<Rightarrow> char" where
  "ascii_lower_char c =
     (case map_of (zip ''ABCDEFGHIJKLMNOPQRSTUVWXYZ'' ''abcdefghijklmnopqrstuvwxyz'') c of
        None \<Rightarrow> c
      | Some l \<Rightarrow> l)"

definition ascii_lower :: "string \<Rightarrow> string" where
  "ascii_lower s = map ascii_lower_char s"

definition standin_search :: "row list \<Rightarrow> string option \<Rightarrow> row list option" where
  "standin_search rows pattern =
     (case pattern of
        None \<Rightarrow> None
      | Some p \<Rightarrow>
          Some (filter (\<lambda>r. case field r ''Question'' of
                              Some (JStr q) \<Rightarrow> ascii_lower q = ascii_lower p
                            | _ \<Rightarrow> False) rows))"

definition standin :: "(row list) library" where
  "standin = \<lparr>xlsx_read = standin_read, xlsx_write = standin_write,
               fuse_search = standin_search, toLowerCase = ascii_lower\<rparr>"

definition empty_state :: "(row list) state" where
  "empty_state = \<lparr>scriptMappings = [], excelData = Map.empty, mapping_file = None,
                   uploads = Map.empty, script_links = None\<rparr>"

definition hours_sheet :: "row list" where
  "hours_sheet = [[(''Question'', JStr ''What are your hours?''), (''Answer'', JStr ''9-5'')]]"

definition weather_sheet :: "row list" where
  "weather_sheet = [[(''Question'', JStr ''Is it raining?''), (''Answer'', JStr ''No'')]]"


definition no_answer_sheet :: "row list" where
  "no_answer_sheet = [[(''Question'', JStr ''What are your hours?'')]]"

definition late_sheet :: "row list" where
  "late_sheet = [[(''Question'', JStr ''What are your hours?''), (''Answer'', JStr ''10-6'')]]"


definition mk_request :: "string \<Rightarrow> row list \<Rightarrow> string \<Rightarrow> (row list) upload_request" where
  "mk_request name rows cn =
     \<lparr>req_file = Some \<lparr>originalname = name, content = rows\<rparr>, req_clientName = Some cn\<rparr>"

text \<open>The state after one accepted upload, and after a second one at the same clock reading.\<close>

definition acme_state :: "(row list) state" where
  "acme_state = fst (upload standin 1700000000000 empty_state (mk_request ''a.xlsx'' hours_sheet ''Acme''))"

definition acme_bolt_state :: "(row list) state" where
  "acme_bolt_state = fst (upload standin 1700000000000 acme_state (mk_request ''b.xlsx'' weather_sheet ''Bolt''))"


section \<open>Properties\<close>

subsection \<open>Objects and strings\<close>

lemma set_obj_entries: "set (obj_entries m) = set m"
  by (auto simp: obj_entries_def)

lemma find_SomeD: "find P xs = Some x \<Longrightarrow> x \<in> set xs \<and> P x"
  by (induction xs) (auto split: if_splits)

lemma find_entry_None_iff:
  "find_entry m sid = None \<longleftrightarrow> (\<forall>kv \<in> set m. scriptId (snd kv) \<noteq> sid)"
  unfolding find_entry_def find_None_iff set_obj_entries by blast

lemma find_entry_SomeD:
  "find_entry m sid = Some (k, e) \<Longrightarrow> (k, e) \<in> set m \<and> scriptId e = sid"
  unfolding find_entry_def
  using find_SomeD[of "\<lambda>kv. scriptId (snd kv) = sid" "obj_entries m" "(k, e)"]
  by (simp add: set_obj_entries)

lemma set_client_names: "set (client_names m) = (\<lambda>kv. clientName (snd kv)) ` set m"
  by (simp add: client_names_def set_obj_entries)

lemma set_obj_set:
  assumes "k \<in> fst ` set m \<or> k \<noteq> ''__proto__''"
  shows "set (obj_set m k v) = insert (k, v) {kv \<in> set m. fst kv \<noteq> k}"
proof (cases "k \<in> fst ` set m")
  case True
  then show ?thesis by (auto simp: obj_set_def)
next
  case False
  with assms have "k \<noteq> ''__proto__''" by simp
  with False have "obj_set m k v = m @ [(k, v)]" by (simp add: obj_set_def)
  moreover from False have "{kv \<in> set m. fst kv \<noteq> k} = set m" by force
  ultimately show ?thesis by simp
qed

lemma set_obj_set_subset: "set (obj_set m k v) \<subseteq> insert (k, v) (set m)"
  by (auto simp: obj_set_def)

lemma obj_set_proto: "''__proto__'' \<notin> fst ` set m \<Longrightarrow> obj_set m ''__proto__'' v = m"
  by (simp add: obj_set_def)

lemma set_obj_delete: "set (obj_delete m k) = {kv \<in> set m. fst kv \<noteq> k}"
  by (auto simp: obj_delete_def)

lemma split_nl_not_Nil: "split_nl s \<noteq> []"
  by (induction s) (auto split: list.splits)

lemma split_nl_no_newline: "l \<in> set (split_nl s) \<Longrightarrow> CHR 0x0A \<notin> set l"
  by (induction s arbitrary: l) (auto split: list.splits if_splits)

lemma split_nl_append_line:
  "CHR 0x0A \<notin> set l \<Longrightarrow> split_nl (l @ CHR 0x0A # t) = l # split_nl t"
  by (induction l) (auto split: list.splits)

lemma split_nl_single: "CHR 0x0A \<notin> set l \<Longrightarrow> split_nl l = [l]"
  by (induction l) (auto split: list.splits)

lemma split_join_nl:
  "ls \<noteq> [] \<Longrightarrow> \<forall>l \<in> set ls. CHR 0x0A \<notin> set l \<Longrightarrow> split_nl (join_nl ls) = ls"
  by (induction ls rule: join_nl.induct) (auto simp: split_nl_append_line split_nl_single)

lemma toString_not_Nil: "toString n \<noteq> []"
  by (subst toString.simps) simp

lemma digit_char_inj: "a < 10 \<Longrightarrow> b < 10 \<Longrightarrow> digit_char a = digit_char b \<Longrightarrow> a = b"
  unfolding digit_char_def
  using nth_eq_iff_index_eq[of "''0123456789''" a b] by simp

text \<open>Two clock readings with the same decimal digits are the same reading.\<close>

lemma toString_inj: "toString m = toString n \<Longrightarrow> m = n"
proof (induction m arbitrary: n rule: toString.induct)
  case (1 m)
  show ?case
  proof (cases "m < 10")
    case True
    show ?thesis
    proof (cases "n < 10")
      case True
      with \<open>m < 10\<close> "1.prems" show ?thesis
        by (simp add: toString.simps[of m] toString.simps[of n] digit_char_inj)
    next
      case False
      with \<open>m < 10\<close> "1.prems" show ?thesis
        using toString_not_Nil[of "n div 10"]
        by (simp add: toString.simps[of m] toString.simps[of n])
    qed
  next
    case False
    show ?thesis
    proof (cases "n < 10")
      case True
      with False "1.prems" show ?thesis
        using toString_not_Nil[of "m div 10"]
        by (simp add: toString.simps[of m] toString.simps[of n])
    next
      case nbig: False
      from False nbig "1.prems"
      have eq: "toString (m div 10) @ [digit_char (m mod 10)]
                = toString (n div 10) @ [digit_char (n mod 10)]"
        by (simp add: toString.simps[of m] toString.simps[of n])
      then have "toString (m div 10) = toString (n div 10)"
        and d: "digit_char (m mod 10) = digit_char (n mod 10)"
        by simp_all
      then have "m div 10 = n div 10" using "1.IH"[OF False] by blast
      moreover have "m mod 10 = n mod 10"
        using d digit_char_inj[of "m mod 10" "n mod 10"] by simp
      ultimately show ?thesis by (metis div_mult_mod_eq)
    qed
  qed
qed

lemma strip_start_none:
  "find (\<lambda>w. w \<noteq> [] \<and> prefix w s) ws = None \<Longrightarrow> strip_start ws s = s"
  by (subst strip_start.simps) simp

lemma strip_start_clean:
  "find (\<lambda>w. w \<noteq> [] \<and> prefix w (strip_start ws s)) ws = None"
proof (induction ws s rule: strip_start.induct)
  case (1 ws s)
  show ?case
  proof (cases "find (\<lambda>w. w \<noteq> [] \<and> prefix w s) ws")
    case None
    then show ?thesis by (simp add: strip_start_none)
  next
    case (Some w)
    have "strip_start ws s = strip_start ws (drop (length w) s)"
      by (subst strip_start.simps) (simp add: Some)
    with "1.IH"[OF Some] show ?thesis by simp
  qed
qed

lemma strip_start_suffix: "suffix (strip_start ws s) s"
proof (induction ws s rule: strip_start.induct)
  case (1 ws s)
  show ?case
  proof (cases "find (\<lambda>w. w \<noteq> [] \<and> prefix w s) ws")
    case None
    then show ?thesis by (simp add: strip_start_none)
  next
    case (Some w)
    have "strip_start ws s = strip_start ws (drop (length w) s)"
      by (subst strip_start.simps) (simp add: Some)
    moreover have "suffix (drop (length w) s) s" by (rule suffix_drop)
    ultimately show ?thesis using "1.IH"[OF Some] suffix_order.trans by metis
  qed
qed

lemma strip_start_idem: "strip_start ws (strip_start ws s) = strip_start ws s"
  by (rule strip_start_none) (rule strip_start_clean)

text \<open>Trimming a trimmed string changes nothing.\<close>

lemma trim_idem: "trim (trim s) = trim s"
proof -
  define t where "t = strip_start white_space s"
  define u where "u = rev (strip_start (map rev white_space) (rev t))"
  have u: "trim s = u" by (simp add: trim_def t_def u_def)
  have "suffix (rev u) (rev t)" unfolding u_def by (simp add: strip_start_suffix)
  then have pre: "prefix u t" by (simp add: suffix_to_prefix)
  have clean: "find (\<lambda>w. w \<noteq> [] \<and> prefix w t) white_space = None"
    unfolding t_def by (rule strip_start_clean)
  have "find (\<lambda>w. w \<noteq> [] \<and> prefix w u) white_space = None"
    using clean pre unfolding find_None_iff by (meson prefix_order.trans)
  then have front: "strip_start white_space u = u" by (rule strip_start_none)
  have rear: "strip_start (map rev white_space) (rev u) = rev u"
    unfolding u_def by (simp add: strip_start_idem)
  show ?thesis unfolding u by (simp add: trim_def front rear)
qed





subsection \<open>Concrete states\<close>

lemma toString_clock: "toString 1700000000000 = ''1700000000000''"
  by (simp add: toString.simps digit_char_def)

lemma trim_Acme: "trim ''Acme'' = ''Acme''"
  by (simp add: trim_def strip_start.simps white_space_def)

lemma trim_Bolt: "trim ''Bolt'' = ''Bolt''"
  by (simp add: trim_def strip_start.simps white_space_def)

lemmas eval_defs = upload_def multer_store_def upload_handler_def mk_request_def
  empty_state_def standin_def standin_read_def client_names_def obj_entries_def obj_set_def
  is_array_index_def is_digit_def trim_Acme trim_Bolt sheet_ok_def field_def
  append_link_def link_line_def Let_def

lemma acme_state_eq:
  "acme_state =
     \<lparr>scriptMappings = [(''a.xlsx'', \<lparr>scriptId = ''1700000000000'',
                          redirectUrl = ''/ask/1700000000000'', clientName = ''Acme''\<rparr>)],
      excelData = [''1700000000000'' \<mapsto> hours_sheet],
      mapping_file = Some [(''a.xlsx'', \<lparr>scriptId = ''1700000000000'',
                          redirectUrl = ''/ask/1700000000000'', clientName = ''Acme''\<rparr>)],
      uploads = [''a.xlsx'' \<mapsto> hours_sheet],
      script_links = Some ''Client: Acme, Script ID: 1700000000000, File: a.xlsx, URL: http://65.1.176.171:8080/ask/1700000000000\<newline>''\<rparr>"
  by (simp add: acme_state_def eval_defs toString_clock hours_sheet_def)

lemma toString_clock1: "toString 1700000000001 = ''1700000000001''"
  by (simp add: toString.simps digit_char_def)

lemma find_acme:
  "find_entry (scriptMappings acme_state) ''1700000000000''
     = Some (''a.xlsx'', \<lparr>scriptId = ''1700000000000'', redirectUrl = ''/ask/1700000000000'',
                          clientName = ''Acme''\<rparr>)"
  by (simp add: acme_state_eq find_entry_def obj_entries_def is_array_index_def is_digit_def)

subsection \<open>POST /process-speech/:id\<close>




text \<open>
  C7. The claim: for every script id without index the answer is the "no data" payload
  with status 404, and the handler never throws. The guard of line 108 is written for
  this, and it misses it for a script id that names a property of \<open>Object.prototype\<close>: for
  the id \<open>constructor\<close>, which no upload has produced, \<open>excelData[scriptId]\<close> is the
  inherited property, the guard lets it pass, \<open>fuse\<close> is \<open>undefined\<close> and line 111 throws.
  The state, here that of a first start, is as before.
\<close>

theorem ask_constructor_throws:
  "excelData empty_state ''constructor'' = None
   \<and> process_speech standin empty_state ''constructor'' (Some (JStr ''hello''))
       = (empty_state, Inl ReadOfUndefined)"
  by (simp add: empty_state_def process_speech_def object_prototype_names_def standin_def)

text \<open>
  For every other script id without index the guard does what it is written for, when the
  question is a string, null or absent; a question of another type has thrown before, at
  line 106. After a restart no script id has an index.
\<close>

lemma ask_without_index:
  assumes "excelData s sid = None" and "sid \<notin> set object_prototype_names"
    and "nullish question \<or> is_string question"
  shows "process_speech lib s sid question
           = (s, Inr (404, Answer (Some (JStr ''No data found for this script.''))))
         \<and> process_speech lib (restart s) sid question
           = (restart s, Inr (404, Answer (Some (JStr ''No data found for this script.''))))"
  using assms
  by (cases "(lib, question)" rule: user_question.cases)
    (simp_all add: process_speech_def restart_def)

lemma ask_number_without_index:
  "process_speech lib s sid (Some (JNum n)) = (s, Inl NotAFunction)"
  by (simp add: process_speech_def)

text \<open>
  C9. As stated (with an index present and a question that is absent or not a string, the
  search is invoked on an undefined pattern and the request fails) the claim fails for a
  question such as the number 5: the exception is the TypeError of line 106, raised before
  the table is consulted, and the search is not invoked. The request fails in the same way
  with a library whose search accepts every pattern.
\<close>

theorem ask_number_question_counterexample:
  "excelData acme_state ''1700000000000'' = Some hours_sheet
   \<and> process_speech standin acme_state ''1700000000000'' (Some (JNum 5))
       = (acme_state, Inl NotAFunction)
   \<and> process_speech standin acme_state ''1700000000000'' (Some (JNum 5))
       \<noteq> (acme_state, Inl FuseThrew)
   \<and> process_speech (standin\<lparr>fuse_search := \<lambda>rows pattern. Some rows\<rparr>) acme_state
         ''1700000000000'' (Some (JNum 5))
       = (acme_state, Inl NotAFunction)"
  by (simp add: acme_state_eq process_speech_def)

text \<open>
  C9, amended. With an index present and a question that is not a string, the handler does
  not answer with status 200. A question that is absent or null reaches the search as an
  undefined pattern, and the request fails when the library throws on it; any other
  question fails at \<open>toLowerCase\<close>, before the search. The state is unchanged.
\<close>

theorem ask_non_string_question:
  assumes "excelData s sid = Some rows" and "\<not> is_string question"
    and "nullish question \<longrightarrow> fuse_search lib rows None = None"
  shows "process_speech lib s sid question
           = (s, Inl (if nullish question then FuseThrew else NotAFunction))"
  using assms
  by (cases "(lib, question)" rule: user_question.cases) (simp_all add: process_speech_def)

theorem ask_non_string_question_witness:
  "excelData acme_state ''1700000000000'' = Some hours_sheet \<and> \<not> is_string None
   \<and> nullish None \<and> fuse_search standin hours_sheet None = None
   \<and> process_speech standin acme_state ''1700000000000'' None = (acme_state, Inl FuseThrew)"
proof -
  have h1: "excelData acme_state ''1700000000000'' = Some hours_sheet"
    by (simp add: acme_state_eq)
  have h3: "fuse_search standin hours_sheet None = None"
    by (simp add: standin_def standin_search_def)
  show ?thesis using ask_non_string_question[OF h1, of None standin] h1 h3 by simp
qed

subsection \<open>POST /upload\<close>

lemma acme_bolt_state_eq:
  "acme_bolt_state =
     \<lparr>scriptMappings =
        [(''a.xlsx'', \<lparr>scriptId = ''1700000000000'', redirectUrl = ''/ask/1700000000000'',
                       clientName = ''Acme''\<rparr>),
         (''b.xlsx'', \<lparr>scriptId = ''1700000000000'', redirectUrl = ''/ask/1700000000000'',
                       clientName = ''Bolt''\<rparr>)],
      excelData = [''1700000000000'' \<mapsto> weather_sheet],
      mapping_file = Some
        [(''a.xlsx'', \<lparr>scriptId = ''1700000000000'', redirectUrl = ''/ask/1700000000000'',
                       clientName = ''Acme''\<rparr>),
         (''b.xlsx'', \<lparr>scriptId = ''1700000000000'', redirectUrl = ''/ask/1700000000000'',
                       clientName = ''Bolt''\<rparr>)],
      uploads = [''a.xlsx'' \<mapsto> hours_sheet, ''b.xlsx'' \<mapsto> weather_sheet],
      script_links = Some ''Client: Acme, Script ID: 1700000000000, File: a.xlsx, URL: http://65.1.176.171:8080/ask/1700000000000\<newline>Client: Bolt, Script ID: 1700000000000, File: b.xlsx, URL: http://65.1.176.171:8080/ask/1700000000000\<newline>''\<rparr>"
  by (simp add: acme_bolt_state_def acme_state_eq eval_defs toString_clock weather_sheet_def)

lemma names_trimmed_iff: "names_trimmed m \<longleftrightarrow> (\<forall>n \<in> set (client_names m). trim n = n)"
  by (simp add: names_trimmed_def list_all_iff)

lemma only_under_iff:
  "only_under m sid fileName
     \<longleftrightarrow> (\<forall>kv \<in> set m. scriptId (snd kv) = sid \<longrightarrow> fst kv = fileName)"
  by (simp add: only_under_def list_all_iff)

lemma map_of_obj_set:
  assumes "k \<in> fst ` set m \<or> k \<noteq> ''__proto__''"
  shows "map_of (obj_set m k v) k = Some v"
proof -
  have "(k, v) \<in> set (obj_set m k v)" by (simp add: set_obj_set[OF assms])
  then obtain x where x: "map_of (obj_set m k v) k = Some x"
    using weak_map_of_SomeI by fastforce
  then have "(k, x) \<in> set (obj_set m k v)" by (rule map_of_SomeD)
  then have "x = v" by (simp add: set_obj_set[OF assms])
  with x show ?thesis by simp
qed

lemma ask_depends_on_index:
  "excelData s' sid = excelData s sid \<Longrightarrow>
   snd (process_speech lib s' sid q) = snd (process_speech lib s sid q)"
  by (simp add: process_speech_def split: sum.splits option.splits list.splits)

text \<open>The script id of an accepted upload is the decimal text of the clock reading.\<close>

lemma upload_scriptId:
  "snd (upload lib now s req) = Inr (200, Uploaded sid fileName cn url) \<Longrightarrow> sid = toString now"
  by (auto simp: upload_def upload_handler_def Let_def split: option.splits if_splits)

text \<open>
  The upload handler stores trimmed client names only, so a table and a mapping file whose
  names are trimmed stay so under every request and over a restart; the empty table of a
  first start is one.
\<close>

lemma names_trimmed_entries: "names_trimmed (obj_entries m) = names_trimmed m"
  by (simp add: names_trimmed_iff set_client_names set_obj_entries)

lemma names_trimmed_obj_set:
  "names_trimmed m \<Longrightarrow> trim (clientName e) = clientName e \<Longrightarrow> names_trimmed (obj_set m k e)"
  unfolding names_trimmed_iff set_client_names using set_obj_set_subset[of m k e] by auto

lemma names_trimmed_obj_delete: "names_trimmed m \<Longrightarrow> names_trimmed (obj_delete m k)"
  unfolding names_trimmed_iff set_client_names by (auto simp: set_obj_delete)

lemma upload_keeps_store_trimmed:
  "store_trimmed s \<Longrightarrow> store_trimmed (fst (upload lib now s req))"
  by (auto simp: store_trimmed_def upload_def upload_handler_def multer_store_def Let_def
      names_trimmed_entries names_trimmed_obj_set trim_idem split: option.splits if_splits)

lemma delete_keeps_store_trimmed:
  "store_trimmed s \<Longrightarrow> store_trimmed (fst (delete_script s sid))"
  by (auto simp: store_trimmed_def delete_script_def Let_def names_trimmed_entries
      names_trimmed_obj_delete split: option.splits)

lemma update_keeps_store_trimmed:
  "store_trimmed s \<Longrightarrow> store_trimmed (fst (update_excel lib s sid sheet))"
  by (auto simp: store_trimmed_def update_excel_def Let_def split: option.splits jsval.splits)

lemma ask_keeps_state: "fst (process_speech lib s sid question) = s"
  by (simp add: process_speech_def split: sum.splits option.splits list.splits)

lemma restart_keeps_store_trimmed: "store_trimmed s \<Longrightarrow> store_trimmed (restart s)"
  by (auto simp: store_trimmed_def restart_def names_trimmed_def client_names_def obj_entries_def
      split: option.splits)

lemma empty_store_trimmed: "store_trimmed empty_state"
  by (simp add: store_trimmed_def empty_state_def names_trimmed_def client_names_def
      obj_entries_def)

text \<open>
  C3. An upload that passes the first check (a file and a non-empty client name) and whose
  client name is that of a live record is answered with the conflict error, and the record
  table, the mapping file, the index table and the link log are as before. (The spreadsheet
  directory is not: multer has stored the file by then.)
\<close>

theorem upload_duplicate_client:
  assumes "req_file req = Some f" and "req_clientName req = Some cn" and "cn \<noteq> []"
    and "cn \<in> set (client_names (scriptMappings s))"
    and "names_trimmed (scriptMappings s)"
  shows "snd (upload lib now s req)
           = Inr (400, ErrorMsg ''Client name already exists. Please choose a different name.'')
         \<and> scriptMappings (fst (upload lib now s req)) = scriptMappings s
         \<and> mapping_file (fst (upload lib now s req)) = mapping_file s
         \<and> excelData (fst (upload lib now s req)) = excelData s
         \<and> script_links (fst (upload lib now s req)) = script_links s"
proof -
  from assms(4,5) have "trim cn = cn" by (simp add: names_trimmed_iff)
  with assms show ?thesis
    by (simp add: upload_def upload_handler_def multer_store_def Let_def)
qed

theorem upload_duplicate_client_witness:
  "''Acme'' \<in> set (client_names (scriptMappings acme_state))
   \<and> names_trimmed (scriptMappings acme_state)
   \<and> snd (upload standin 1700000000005 acme_state (mk_request ''c.xlsx'' weather_sheet ''Acme''))
       = Inr (400, ErrorMsg ''Client name already exists. Please choose a different name.'')
   \<and> scriptMappings
         (fst (upload standin 1700000000005 acme_state (mk_request ''c.xlsx'' weather_sheet ''Acme'')))
       = scriptMappings acme_state
   \<and> mapping_file
         (fst (upload standin 1700000000005 acme_state (mk_request ''c.xlsx'' weather_sheet ''Acme'')))
       = mapping_file acme_state
   \<and> script_links
         (fst (upload standin 1700000000005 acme_state (mk_request ''c.xlsx'' weather_sheet ''Acme'')))
       = script_links acme_state"
proof -
  have h4: "''Acme'' \<in> set (client_names (scriptMappings acme_state))"
    by (simp add: acme_state_eq client_names_def obj_entries_def is_array_index_def is_digit_def)
  have h5: "names_trimmed (scriptMappings acme_state)"
    by (simp add: names_trimmed_def acme_state_eq client_names_def obj_entries_def
        is_array_index_def is_digit_def trim_Acme)
  show ?thesis
    using upload_duplicate_client[of "mk_request ''c.xlsx'' weather_sheet ''Acme''"
        "\<lparr>originalname = ''c.xlsx'', content = weather_sheet\<rparr>" "''Acme''" acme_state standin
        1700000000005] h4 h5
    by (simp add: mk_request_def)
qed

text \<open>
  C4. As stated (two accepted uploads of one process run never return the same script id)
  the claim fails when \<open>Date.now()\<close> reads the same millisecond for both: the id is the
  clock reading and nothing else.
\<close>

theorem uploads_same_clock_counterexample:
  "snd (upload standin 1700000000000 empty_state (mk_request ''a.xlsx'' hours_sheet ''Acme''))
     = Inr (200, Uploaded ''1700000000000'' ''a.xlsx'' ''Acme'' ''/ask/1700000000000'')
   \<and> snd (upload standin 1700000000000 acme_state (mk_request ''b.xlsx'' weather_sheet ''Bolt''))
     = Inr (200, Uploaded ''1700000000000'' ''b.xlsx'' ''Bolt'' ''/ask/1700000000000'')"
  by (simp add: acme_state_eq eval_defs toString_clock hours_sheet_def weather_sheet_def)

text \<open>
  C4, amended. Two accepted uploads return the same script id exactly when their clock
  readings are equal; so uploads whose clock readings differ return different script ids.
\<close>

theorem scriptIds_distinct:
  assumes "snd (upload lib t1 s1 r1) = Inr (200, Uploaded sid1 f1 c1 u1)"
    and "snd (upload lib t2 s2 r2) = Inr (200, Uploaded sid2 f2 c2 u2)"
  shows "(sid1 = sid2) = (t1 = t2)"
  using upload_scriptId[OF assms(1)] upload_scriptId[OF assms(2)] toString_inj[of t1 t2]
  by auto

theorem scriptIds_distinct_witness:
  "snd (upload standin 1700000000000 empty_state (mk_request ''a.xlsx'' hours_sheet ''Acme''))
     = Inr (200, Uploaded ''1700000000000'' ''a.xlsx'' ''Acme'' ''/ask/1700000000000'')
   \<and> snd (upload standin 1700000000001 acme_state (mk_request ''b.xlsx'' weather_sheet ''Bolt''))
     = Inr (200, Uploaded ''1700000000001'' ''b.xlsx'' ''Bolt'' ''/ask/1700000000001'')
   \<and> (''1700000000000'' = ''1700000000001'') = ((1700000000000 :: nat) = 1700000000001)"
proof -
  have h1: "snd (upload standin 1700000000000 empty_state (mk_request ''a.xlsx'' hours_sheet ''Acme''))
     = Inr (200, Uploaded ''1700000000000'' ''a.xlsx'' ''Acme'' ''/ask/1700000000000'')"
    by (simp add: eval_defs toString_clock hours_sheet_def)
  have h2: "snd (upload standin 1700000000001 acme_state (mk_request ''b.xlsx'' weather_sheet ''Bolt''))
     = Inr (200, Uploaded ''1700000000001'' ''b.xlsx'' ''Bolt'' ''/ask/1700000000001'')"
    by (simp add: acme_state_eq eval_defs toString_clock1 weather_sheet_def)
  from scriptIds_distinct[OF h1 h2] h1 h2 show ?thesis by blast
qed

text \<open>
  C5. The claim: an upload whose decoded sheet is empty, or whose first row has no Question
  or no Answer, is answered with status 400, the record written before decoding stays in
  the table and in the mapping file, no index is stored and no line is added to the link
  log. Line 61 is written to store the record under the file name, and it misses it for a
  file named \<open>__proto__\<close>: the assignment replaces the prototype of \<open>scriptMappings\<close>, the
  table has no record after it, and line 62 writes a mapping file without one.
\<close>

theorem upload_proto_file_name:
  "snd (upload standin 1700000000000 empty_state (mk_request ''__proto__'' no_answer_sheet ''Acme''))
     = Inr (400, ErrorMsg ''The uploaded file is empty or missing required columns.'')
   \<and> scriptMappings
         (fst (upload standin 1700000000000 empty_state
                (mk_request ''__proto__'' no_answer_sheet ''Acme''))) = []
   \<and> mapping_file
         (fst (upload standin 1700000000000 empty_state
                (mk_request ''__proto__'' no_answer_sheet ''Acme''))) = Some []"
  by (simp add: eval_defs no_answer_sheet_def)

text \<open>
  Under every other file name, and under \<open>__proto__\<close> where the table has such a record
  already, the handler does what the claim says: the record is in the table and among the
  records of the mapping file, the index table and the link log are as before.
\<close>

lemma upload_invalid_sheet:
  assumes "req_file req = Some f" and "req_clientName req = Some cn" and "cn \<noteq> []"
    and "trim cn \<notin> set (client_names (scriptMappings s))"
    and "xlsx_read lib (content f) = Some sheet"
    and "sheet = [] \<or> field (hd sheet) ''Question'' = None \<or> field (hd sheet) ''Answer'' = None"
    and "originalname f \<in> fst ` set (scriptMappings s) \<or> originalname f \<noteq> ''__proto__''"
  shows "snd (upload lib now s req)
           = Inr (400, ErrorMsg ''The uploaded file is empty or missing required columns.'')
         \<and> (originalname f, \<lparr>scriptId = toString now, redirectUrl = ''/ask/'' @ toString now,
                              clientName = trim cn\<rparr>)
             \<in> set (scriptMappings (fst (upload lib now s req)))
         \<and> (\<exists>records. mapping_file (fst (upload lib now s req)) = Some records
              \<and> (originalname f, \<lparr>scriptId = toString now,
                     redirectUrl = ''/ask/'' @ toString now, clientName = trim cn\<rparr>)
                  \<in> set records)
         \<and> excelData (fst (upload lib now s req)) = excelData s
         \<and> script_links (fst (upload lib now s req)) = script_links s"
proof -
  from assms(6) have "\<not> sheet_ok sheet"
    by (cases sheet) (auto simp: sheet_ok_def)
  with assms(1-5) show ?thesis
    by (simp add: upload_def upload_handler_def multer_store_def Let_def set_obj_set[OF assms(7)]
        set_obj_entries)
qed

text \<open>
  C8. As stated (after an accepted upload under the file name of a live record, asking on
  the old script id still answers from the old sheet, and no record resolves that id) the
  claim fails when the clock reads the old record's script id again: the new index is
  stored under the old id, so that the question is answered from the new sheet, and the new
  record resolves the id.
\<close>

theorem upload_same_file_name_counterexample:
  "map_of (scriptMappings acme_state) ''a.xlsx''
     = Some \<lparr>scriptId = ''1700000000000'', redirectUrl = ''/ask/1700000000000'',
              clientName = ''Acme''\<rparr>
   \<and> process_speech standin acme_state ''1700000000000'' (Some (JStr ''What are your hours?''))
       = (acme_state, Inr (200, Answer (Some (JStr ''9-5''))))
   \<and> snd (upload standin 1700000000000 acme_state (mk_request ''a.xlsx'' late_sheet ''Bolt''))
       = Inr (200, Uploaded ''1700000000000'' ''a.xlsx'' ''Bolt'' ''/ask/1700000000000'')
   \<and> excelData (fst (upload standin 1700000000000 acme_state
                         (mk_request ''a.xlsx'' late_sheet ''Bolt''))) ''1700000000000''
       = Some late_sheet
   \<and> snd (process_speech standin
            (fst (upload standin 1700000000000 acme_state
                   (mk_request ''a.xlsx'' late_sheet ''Bolt'')))
            ''1700000000000'' (Some (JStr ''What are your hours?'')))
       = Inr (200, Answer (Some (JStr ''10-6'')))
   \<and> find_entry
         (scriptMappings (fst (upload standin 1700000000000 acme_state
                                 (mk_request ''a.xlsx'' late_sheet ''Bolt''))))
         ''1700000000000''
       = Some (''a.xlsx'', \<lparr>scriptId = ''1700000000000'', redirectUrl = ''/ask/1700000000000'',
                              clientName = ''Bolt''\<rparr>)"
  by (simp add: acme_state_eq eval_defs toString_clock hours_sheet_def late_sheet_def
      process_speech_def standin_search_def ascii_lower_def ascii_lower_char_def find_entry_def)

text \<open>
  C8, amended. After an accepted upload under the file name of a live record, when the new
  script id differs from the old one and no record under another file name carries the old
  one: the record under that file name is the new one, the index table is as before at the
  old script id, asking on the old script id gives the answer it gave before, and no record
  resolves the old script id.
\<close>

theorem upload_same_file_name:
  assumes "(fileName, old) \<in> set (scriptMappings s)"
    and "req_file req = Some f" and "originalname f = fileName"
    and "req_clientName req = Some cn"
    and "snd (upload lib now s req) = Inr (200, body)"
    and "toString now \<noteq> scriptId old"
    and "only_under (scriptMappings s) (scriptId old) fileName"
  shows "map_of (scriptMappings (fst (upload lib now s req))) fileName
           = Some \<lparr>scriptId = toString now, redirectUrl = ''/ask/'' @ toString now,
                   clientName = trim cn\<rparr>
         \<and> excelData (fst (upload lib now s req)) (scriptId old) = excelData s (scriptId old)
         \<and> snd (process_speech lib (fst (upload lib now s req)) (scriptId old) q)
             = snd (process_speech lib s (scriptId old) q)
         \<and> find_entry (scriptMappings (fst (upload lib now s req))) (scriptId old) = None"
proof -
  let ?new = "\<lparr>scriptId = toString now, redirectUrl = ''/ask/'' @ toString now,
               clientName = trim cn\<rparr>"
  let ?s' = "fst (upload lib now s req)"
  from assms(2-5) obtain sheet where
    s': "?s' = s\<lparr>uploads := (uploads s)(fileName \<mapsto> content f),
               scriptMappings := obj_set (scriptMappings s) fileName ?new,
               mapping_file := Some (obj_entries (obj_set (scriptMappings s) fileName ?new)),
               excelData := (excelData s)(toString now \<mapsto> sheet),
               script_links := append_link (script_links s)
                  (link_line (trim cn) (toString now) fileName (''/ask/'' @ toString now))\<rparr>"
    by (auto simp: upload_def upload_handler_def multer_store_def Let_def
        split: option.splits if_splits)
  have m: "scriptMappings ?s' = obj_set (scriptMappings s) fileName ?new"
    and x: "excelData ?s' = (excelData s)(toString now \<mapsto> sheet)"
    by (simp_all add: s')
  have idx: "excelData ?s' (scriptId old) = excelData s (scriptId old)"
    using assms(6) by (simp add: x)
  have own: "fileName \<in> fst ` set (scriptMappings s) \<or> fileName \<noteq> ''__proto__''"
    using assms(1) by force
  have gone: "find_entry (scriptMappings ?s') (scriptId old) = None"
    unfolding m find_entry_None_iff set_obj_set[OF own]
    using assms(6,7) unfolding only_under_iff by auto
  show ?thesis
    using idx gone ask_depends_on_index[OF idx] by (simp add: m map_of_obj_set[OF own])
qed

theorem upload_same_file_name_witness:
  "(''a.xlsx'', \<lparr>scriptId = ''1700000000000'', redirectUrl = ''/ask/1700000000000'', clientName = ''Acme''\<rparr>)
      \<in> set (scriptMappings acme_state)
   \<and> snd (upload standin 1700000000001 acme_state (mk_request ''a.xlsx'' weather_sheet ''Bolt''))
       = Inr (200, Uploaded ''1700000000001'' ''a.xlsx'' ''Bolt'' ''/ask/1700000000001'')
   \<and> toString 1700000000001 \<noteq> ''1700000000000''
   \<and> only_under (scriptMappings acme_state) ''1700000000000'' ''a.xlsx''
   \<and> map_of (scriptMappings (fst (upload standin 1700000000001 acme_state (mk_request ''a.xlsx'' weather_sheet ''Bolt'')))) ''a.xlsx''
       = Some \<lparr>scriptId = ''1700000000001'', redirectUrl = ''/ask/1700000000001'', clientName = ''Bolt''\<rparr>
   \<and> excelData (fst (upload standin 1700000000001 acme_state (mk_request ''a.xlsx'' weather_sheet ''Bolt''))) ''1700000000000''
       = Some hours_sheet
   \<and> snd (process_speech standin (fst (upload standin 1700000000001 acme_state (mk_request ''a.xlsx'' weather_sheet ''Bolt'')))
            ''1700000000000'' (Some (JStr ''What are your hours?'')))
       = Inr (200, Answer (Some (JStr ''9-5'')))
   \<and> find_entry (scriptMappings (fst (upload standin 1700000000001 acme_state (mk_request ''a.xlsx'' weather_sheet ''Bolt''))))
         ''1700000000000'' = None"
proof -
  let ?old = "\<lparr>scriptId = ''1700000000000'', redirectUrl = ''/ask/1700000000000'', clientName = ''Acme''\<rparr>"
  let ?req = "mk_request ''a.xlsx'' weather_sheet ''Bolt''"
  have h1: "(''a.xlsx'', ?old) \<in> set (scriptMappings acme_state)"
    by (simp add: acme_state_eq)
  have h2: "req_file ?req = Some \<lparr>originalname = ''a.xlsx'', content = weather_sheet\<rparr>"
    and h4: "req_clientName ?req = Some ''Bolt''"
    by (simp_all add: mk_request_def)
  have h3: "originalname \<lparr>originalname = ''a.xlsx'', content = weather_sheet\<rparr> = ''a.xlsx''"
    by simp
  have h5: "snd (upload standin 1700000000001 acme_state ?req)
       = Inr (200, Uploaded ''1700000000001'' ''a.xlsx'' ''Bolt'' ''/ask/1700000000001'')"
    by (simp add: acme_state_eq eval_defs toString_clock1 weather_sheet_def)
  have h6: "toString 1700000000001 \<noteq> scriptId ?old"
    by (simp add: toString_clock1)
  have h7: "only_under (scriptMappings acme_state) (scriptId ?old) ''a.xlsx''"
    by (simp add: only_under_def acme_state_eq)
  have before: "excelData acme_state ''1700000000000'' = Some hours_sheet"
    "snd (process_speech standin acme_state ''1700000000000'' (Some (JStr ''What are your hours?'')))
       = Inr (200, Answer (Some (JStr ''9-5'')))"
    by (simp_all add: acme_state_eq process_speech_def standin_def standin_search_def
        hours_sheet_def field_def ascii_lower_def ascii_lower_char_def)
  have t: "trim ''Bolt'' = ''Bolt''" by (rule trim_Bolt)
  show ?thesis
    using upload_same_file_name[OF h1 h2 h3 h4 h5 h6 h7, of "Some (JStr ''What are your hours?'')"]
      h1 h5 h6 h7 before
    by (simp add: toString_clock1 t)
qed

subsection \<open>PUT /update-excel and GET /get-excel/:id\<close>




subsection \<open>DELETE /delete/:scriptId\<close>

lemma link_log_clean:
  assumes "sid \<noteq> []"
  shows "list_all (\<lambda>line. \<not> str_includes line sid)
           (split_nl (join_nl (filter (\<lambda>line. \<not> str_includes line sid) (split_nl lg))))"
proof (cases "filter (\<lambda>line. \<not> str_includes line sid) (split_nl lg) = []")
  case True
  with assms show ?thesis by simp
next
  case False
  have "\<forall>l \<in> set (filter (\<lambda>line. \<not> str_includes line sid) (split_nl lg)). CHR 0x0A \<notin> set l"
    using split_nl_no_newline by auto
  with False show ?thesis by (simp add: split_join_nl list_all_iff)
qed

text \<open>
  C6. As stated (after a successful delete of a live script id, reading it gives the
  not-found error) the claim fails when a second live record carries the same script id, as
  after two uploads at one clock reading: the delete removes the first record of the id, and
  the read finds the other.
\<close>

theorem delete_shared_id_counterexample:
  "snd (delete_script acme_bolt_state ''1700000000000'')
     = (200, Message ''Script deleted successfully!'')
   \<and> get_excel standin (fst (delete_script acme_bolt_state ''1700000000000'')) ''1700000000000''
       = (200, SheetRows weather_sheet)"
  by (simp add: acme_bolt_state_eq delete_script_def get_excel_def find_entry_def obj_entries_def
      obj_delete_def is_array_index_def is_digit_def standin_def standin_read_def
      weather_sheet_def Let_def)

text \<open>
  C6, amended. After a successful delete of a live script id that no record under another
  file name carries: reading the script id gives the not-found error, the spreadsheet file
  is gone, the index entry is gone, and no line of the link log contains the script id.
\<close>

theorem delete_then_get:
  assumes "find_entry (scriptMappings s) sid = Some (fileName, e)"
    and "only_under (scriptMappings s) sid fileName"
    and "sid \<noteq> []"
    and "snd (delete_script s sid) = (200, Message ''Script deleted successfully!'')"
  shows "get_excel lib (fst (delete_script s sid)) sid = (404, ErrorMsg ''File not found.'')
         \<and> uploads (fst (delete_script s sid)) fileName = None
         \<and> excelData (fst (delete_script s sid)) sid = None
         \<and> (case script_links (fst (delete_script s sid)) of
               None \<Rightarrow> False
             | Some lg \<Rightarrow> list_all (\<lambda>line. \<not> str_includes line sid) (split_nl lg))"
proof -
  from assms(1,4) obtain lg where links: "script_links s = Some lg"
    by (cases "script_links s") (auto simp: delete_script_def Let_def)
  have gone: "find_entry (obj_delete (scriptMappings s) fileName) sid = None"
    using assms(2) unfolding find_entry_None_iff set_obj_delete only_under_iff by blast
  from assms(1) links gone link_log_clean[OF assms(3), of lg] show ?thesis
    by (simp add: delete_script_def get_excel_def Let_def)
qed

theorem delete_then_get_witness:
  "find_entry (scriptMappings acme_state) ''1700000000000''
      = Some (''a.xlsx'', \<lparr>scriptId = ''1700000000000'', redirectUrl = ''/ask/1700000000000'', clientName = ''Acme''\<rparr>)
   \<and> only_under (scriptMappings acme_state) ''1700000000000'' ''a.xlsx''
   \<and> snd (delete_script acme_state ''1700000000000'') = (200, Message ''Script deleted successfully!'')
   \<and> get_excel standin (fst (delete_script acme_state ''1700000000000'')) ''1700000000000''
       = (404, ErrorMsg ''File not found.'')
   \<and> uploads (fst (delete_script acme_state ''1700000000000'')) ''a.xlsx'' = None
   \<and> excelData (fst (delete_script acme_state ''1700000000000'')) ''1700000000000'' = None
   \<and> script_links (fst (delete_script acme_state ''1700000000000'')) = Some []"
proof -
  have h2: "only_under (scriptMappings acme_state) ''1700000000000'' ''a.xlsx''"
    by (simp add: only_under_def acme_state_eq)
  have h4: "snd (delete_script acme_state ''1700000000000'') = (200, Message ''Script deleted successfully!'')"
    by (simp add: delete_script_def find_entry_def obj_entries_def obj_delete_def
        is_array_index_def is_digit_def Let_def acme_state_eq)
  have h5: "script_links (fst (delete_script acme_state ''1700000000000'')) = Some []"
    by (simp add: delete_script_def find_entry_def obj_entries_def obj_delete_def
        is_array_index_def is_digit_def Let_def acme_state_eq)
  show ?thesis
    using delete_then_get[OF find_acme h2 _ h4, of standin] find_acme h2 h4 h5 by simp
qed

text \<open>
  C10. When the link log does not exist, the delete of a live script id is answered with
  status 500 although the spreadsheet file is deleted, the record is removed from the table
  and the mapping file rewritten without it, and the index entry is removed: the state is
  not the state before the request.
\<close>

theorem delete_fails_at_link_log:
  assumes "find_entry (scriptMappings s) sid = Some (fileName, e)"
    and "script_links s = None"
  shows "snd (delete_script s sid) = (500, ErrorMsg ''Server error.'')
         \<and> uploads (fst (delete_script s sid)) fileName = None
         \<and> fileName \<notin> fst ` set (scriptMappings (fst (delete_script s sid)))
         \<and> mapping_file (fst (delete_script s sid))
             = Some (obj_entries (scriptMappings (fst (delete_script s sid))))
         \<and> excelData (fst (delete_script s sid)) sid = None
         \<and> fst (delete_script s sid) \<noteq> s"
proof -
  let ?s' = "fst (delete_script s sid)"
  from assms have eq: "delete_script s sid =
      (s\<lparr>uploads := (uploads s)(fileName := None),
         scriptMappings := obj_delete (scriptMappings s) fileName,
         mapping_file := Some (obj_entries (obj_delete (scriptMappings s) fileName)),
         excelData := (excelData s)(sid := None)\<rparr>, (500, ErrorMsg ''Server error.''))"
    by (simp add: delete_script_def Let_def)
  have in_m: "(fileName, e) \<in> set (scriptMappings s)"
    using find_entry_SomeD[OF assms(1)] by simp
  have notin: "fileName \<notin> fst ` set (scriptMappings ?s')"
    by (auto simp: eq set_obj_delete)
  have "scriptMappings ?s' \<noteq> scriptMappings s"
    using in_m notin by force
  then have "?s' \<noteq> s" by auto
  with notin show ?thesis by (simp add: eq)
qed

theorem delete_fails_at_link_log_witness:
  "find_entry (scriptMappings (acme_state\<lparr>script_links := None\<rparr>)) ''1700000000000''
      = Some (''a.xlsx'', \<lparr>scriptId = ''1700000000000'', redirectUrl = ''/ask/1700000000000'', clientName = ''Acme''\<rparr>)
   \<and> script_links (acme_state\<lparr>script_links := None\<rparr>) = None
   \<and> snd (delete_script (acme_state\<lparr>script_links := None\<rparr>) ''1700000000000'')
       = (500, ErrorMsg ''Server error.'')
   \<and> uploads (fst (delete_script (acme_state\<lparr>script_links := None\<rparr>) ''1700000000000'')) ''a.xlsx'' = None
   \<and> scriptMappings (fst (delete_script (acme_state\<lparr>script_links := None\<rparr>) ''1700000000000'')) = []
   \<and> mapping_file (fst (delete_script (acme_state\<lparr>script_links := None\<rparr>) ''1700000000000'')) = Some []
   \<and> excelData (fst (delete_script (acme_state\<lparr>script_links := None\<rparr>) ''1700000000000'')) ''1700000000000'' = None
   \<and> fst (delete_script (acme_state\<lparr>script_links := None\<rparr>) ''1700000000000'')
       \<noteq> acme_state\<lparr>script_links := None\<rparr>"
proof -
  have h1: "find_entry (scriptMappings (acme_state\<lparr>script_links := None\<rparr>)) ''1700000000000''
      = Some (''a.xlsx'', \<lparr>scriptId = ''1700000000000'', redirectUrl = ''/ask/1700000000000'', clientName = ''Acme''\<rparr>)"
    using find_acme by simp
  have h2: "script_links (acme_state\<lparr>script_links := None\<rparr>) = None" by simp
  have m: "scriptMappings (fst (delete_script (acme_state\<lparr>script_links := None\<rparr>) ''1700000000000'')) = []"
    by (simp add: delete_script_def find_entry_def obj_entries_def obj_delete_def
        is_array_index_def is_digit_def Let_def acme_state_eq)
  show ?thesis
    using delete_fails_at_link_log[OF h1 h2] h1 m by (simp add: obj_entries_def)
qed

end
